theory Spec2Isabelle
  imports Complex_Main "HOL-Library.Multiset"
begin

section \<open>Values\<close>

text \<open>
  A cell of a dataframe, and an argument of the distance functions, is either the
  missing-value marker or a number. Numbers are taken as exact reals and the
  arithmetic on them as exact: the program computes in float64, so a number it
  returns can differ from the one stated here by rounding error, and a column of
  int64 wraps around where a real does not. Every concrete input used below (such as
  \<open>3/2\<close>) is a number the machine represents exactly, with results it computes
  exactly. Python's \<open>int\<close> results are embedded into the reals, as Python's \<open>==\<close>
  compares \<open>1\<close> and \<open>1.0\<close>.
\<close>

datatype scalar = NaN | Num (num_of: real)

fun isnan :: "scalar \<Rightarrow> bool" where
  "isnan NaN = True"
| "isnan (Num x) = False"

text \<open>Python's \<open>int(x)\<close> on a float drops the fractional part (rounds towards zero).\<close>

definition py_int :: "real \<Rightarrow> int" where
  "py_int x = (if 0 \<le> x then \<lfloor>x\<rfloor> else \<lceil>x\<rceil>)"

datatype error = KeyError | IndexError

text \<open>What \<open>print\<close> writes: the error line of the combination generator, and the line
  of \<open>get_nearest_neighbors\<close> with its two formatted means and the feature name.\<close>

datatype event = Error_msg string | Predicted_msg scalar string scalar

record prediction_config =
  TARGET_COLUMN :: string
  MIN_FEATURES_COMBO_LEN :: int

section \<open>Distance between two values\<close>

text \<open>
  \<^verbatim>\<open>
  def calc_euclidean_dist(self, val1, val2):
      if np.isnan(val1) or np.isnan(val2):
          return 2**5
      return int(math.sqrt(abs(val1 - val2)**2))
  \<close>
\<close>

definition calc_euclidean_dist :: "scalar \<Rightarrow> scalar \<Rightarrow> real" where
  "calc_euclidean_dist val1 val2 =
     (if isnan val1 \<or> isnan val2 then 2 ^ 5
      else real_of_int (py_int (sqrt (\<bar>num_of val1 - num_of val2\<bar> ^ 2))))"

text \<open>
  SciPy's \<open>distance.euclidean(u, v)\<close> is the 2-norm of \<open>u - v\<close>; a scalar argument is
  taken as a vector of length one.
\<close>

definition euclidean :: "real list \<Rightarrow> real list \<Rightarrow> real" where
  "euclidean u v = sqrt (sum_list (map (\<lambda>(a, b). (a - b) ^ 2) (zip u v)))"

definition calc_euclidean_dist_using_scipy :: "scalar \<Rightarrow> scalar \<Rightarrow> real" where
  "calc_euclidean_dist_using_scipy val1 val2 =
     (if isnan val1 \<or> isnan val2 then 2 ^ 5
      else euclidean [num_of val1] [num_of val2])"

text \<open>\<open>obs2\<close> is a column (a Series), \<open>obs1\<close> the value it is compared with.\<close>

definition compare_observations :: "scalar \<Rightarrow> scalar list \<Rightarrow> real list" where
  "compare_observations obs1 obs2 = map (\<lambda>x. calc_euclidean_dist_using_scipy x obs1) obs2"

section \<open>Combinations of features\<close>

text \<open>
  \<open>itertools.combinations(xs, r)\<close>: the subsequences of \<open>xs\<close> of length \<open>r\<close>, in
  lexicographic order of their positions.
\<close>

fun combinations :: "'a list \<Rightarrow> nat \<Rightarrow> 'a list list" where
  "combinations xs 0 = [[]]"
| "combinations [] (Suc r) = []"
| "combinations (x # xs) (Suc r) = map ((#) x) (combinations xs r) @ combinations xs (Suc r)"

text \<open>\<open>sum(combos, [])\<close> appends the lists of \<open>combos\<close> from left to right.\<close>

definition flatten_combo :: "'a list list \<Rightarrow> 'a list" where
  "flatten_combo combos = foldl (@) [] combos"

text \<open>
  The loop of \<open>generate_combinations_of_features\<close>:
  \<^verbatim>\<open>
  while i >= 1 and i <= loop_count:
      combos_above_min_len.append(list(itertools.combinations(features, i)))
      i += 1
  \<close>
\<close>

function combos_loop :: "'a list \<Rightarrow> int \<Rightarrow> 'a list list list \<Rightarrow> 'a list list list" where
  "combos_loop features i combos_above_min_len =
     (if i \<ge> 1 \<and> i \<le> int (length features)
      then combos_loop features (i + 1)
             (combos_above_min_len @ [combinations features (nat i)])
      else combos_above_min_len)"
  by pat_completeness auto
termination
  by (relation "measure (\<lambda>(features, i, acc). nat (int (length features) + 1 - i))") auto

declare combos_loop.simps [simp del]

text \<open>The result is the returned list together with what was printed.\<close>

definition generate_combinations_of_features ::
  "prediction_config \<Rightarrow> string list \<Rightarrow> string list list \<times> event list" where
  "generate_combinations_of_features cfg training_column_names =
     (let features = training_column_names;
          loop_count = int (length features)
      in if MIN_FEATURES_COMBO_LEN cfg < loop_count
         then (flatten_combo (combos_loop features (MIN_FEATURES_COMBO_LEN cfg) []), [])
         else ([], [Error_msg
           ''Error: Miniumum length of any features combos cannot exceed length of all features'']))"

section \<open>Dataframes\<close>

text \<open>
  A dataframe has its column names, in order, and its rows, in order; a row carries
  its label (pandas' index, here an integer) and one cell per column. \<open>df.loc\<close>
  selects by label, \<open>df.iloc\<close> by position.
\<close>

type_synonym row = "scalar list"

record dataframe =
  columns :: "string list"
  rows :: "(int \<times> row) list"

text \<open>\<open>x[c]\<close> for a row \<open>x\<close>: the cell under column \<open>c\<close>, or KeyError.\<close>

definition row_get :: "string list \<Rightarrow> row \<Rightarrow> string \<Rightarrow> error + scalar" where
  "row_get cols r c = (case map_of (zip cols r) c of None \<Rightarrow> Inl KeyError | Some v \<Rightarrow> Inr v)"

text \<open>A function on every row, from the first; an exception of the function ends the
  call.\<close>

fun apply_rows :: "(row \<Rightarrow> error + 'a) \<Rightarrow> row list \<Rightarrow> error + 'a list" where
  "apply_rows f [] = Inr []"
| "apply_rows f (r # rs) =
     (case f r of Inl e \<Rightarrow> Inl e
      | Inr v \<Rightarrow> (case apply_rows f rs of Inl e \<Rightarrow> Inl e | Inr vs \<Rightarrow> Inr (v # vs)))"

text \<open>\<open>df[c]\<close>: the column \<open>c\<close> as a Series, or KeyError when the frame has no such
  column.\<close>

definition get_column :: "dataframe \<Rightarrow> string \<Rightarrow> error + scalar list" where
  "get_column df c =
     (if c \<in> set (columns df)
      then apply_rows (\<lambda>r. row_get (columns df) r c) (map snd (rows df))
      else Inl KeyError)"

text \<open>\<open>df.iloc[a:b]\<close>: the rows at positions \<open>a\<close> to \<open>b - 1\<close>; a slice reaching
  beyond the last row ends there.\<close>

definition iloc_slice :: "nat \<Rightarrow> nat \<Rightarrow> dataframe \<Rightarrow> dataframe" where
  "iloc_slice a b df = df\<lparr>rows := take (b - a) (drop a (rows df))\<rparr>"

text \<open>\<open>Series.mean()\<close> skips missing values; the mean of no value at all is the
  missing-value marker (pandas raises nothing). The sum and the quotient are exact
  here; pandas rounds both to float64, so that of three values 0.1 it returns
  0.10000000000000002.\<close>

definition series_mean :: "scalar list \<Rightarrow> scalar" where
  "series_mean s =
     (let vs = map num_of (filter (\<lambda>v. \<not> isnan v) s)
      in if vs = [] then NaN else Num (sum_list vs / real (length vs)))"

text \<open>Arithmetic on cells: a missing operand gives a missing result, and so does the
  square root of a negative number. The cells are those of a float64 column, taken
  as exact; in a column of int64 the program's difference and square wrap around,
  which a real does not.\<close>

fun sub :: "scalar \<Rightarrow> scalar \<Rightarrow> scalar" where
  "sub (Num a) (Num b) = Num (a - b)"
| "sub _ _ = NaN"

fun np_absolute :: "scalar \<Rightarrow> scalar" where
  "np_absolute (Num a) = Num \<bar>a\<bar>"
| "np_absolute NaN = NaN"

fun square :: "scalar \<Rightarrow> scalar" where
  "square (Num a) = Num (a ^ 2)"
| "square NaN = NaN"

fun np_sqrt :: "scalar \<Rightarrow> scalar" where
  "np_sqrt (Num a) = (if a < 0 then NaN else Num (sqrt a))"
| "np_sqrt NaN = NaN"

text \<open>
  \<open>df.apply(f, axis=1)\<close>. On a frame with rows, \<open>f\<close> is called on every row and
  the results form a Series. On a frame without rows pandas calls \<open>f\<close> once, on a
  row of missing values under the columns of the frame, to see what \<open>f\<close> returns:
  when that call raises, the exception is dropped and the result is a copy of the
  frame; otherwise it is a Series without entries.
\<close>

datatype applied = Reduced "scalar list" | Unreduced dataframe

definition df_apply :: "(row \<Rightarrow> error + scalar) \<Rightarrow> dataframe \<Rightarrow> error + applied" where
  "df_apply f df =
     (if rows df = []
      then (case f (replicate (length (columns df)) NaN) of
              Inl e \<Rightarrow> Inr (Unreduced df)
            | Inr r \<Rightarrow> Inr (Reduced []))
      else (case apply_rows f (map snd (rows df)) of
              Inl e \<Rightarrow> Inl e
            | Inr s \<Rightarrow> Inr (Reduced s)))"

text \<open>
  \<open>.mean()\<close> of what \<open>apply\<close> returned: one number for a Series, and for a frame
  the mean of each column, under the name of the column. \<open>np.sqrt\<close> of the latter
  is taken column by column.
\<close>

datatype outcome = Scalar scalar | Per_column "(string \<times> scalar) list"

definition dataframe_mean :: "dataframe \<Rightarrow> (string \<times> scalar) list" where
  "dataframe_mean df =
     map (\<lambda>c. (c, case get_column df c of Inl e \<Rightarrow> NaN | Inr s \<Rightarrow> series_mean s))
       (columns df)"

fun mean_applied :: "applied \<Rightarrow> outcome" where
  "mean_applied (Reduced s) = Scalar (series_mean s)"
| "mean_applied (Unreduced d) = Per_column (dataframe_mean d)"

fun sqrt_outcome :: "outcome \<Rightarrow> outcome" where
  "sqrt_outcome (Scalar v) = Scalar (np_sqrt v)"
| "sqrt_outcome (Per_column cs) = Per_column (map (\<lambda>cv. (fst cv, np_sqrt (snd cv))) cs)"

section \<open>Nearest neighbours\<close>

text \<open>
  \<^verbatim>\<open>
  def get_nearest_neighbors(self, df, model_feature_name):
      print("... %.2f ... %r ... %r" % (df.iloc[0:5][TARGET_COLUMN].mean(),
          model_feature_name, df.iloc[0:5][model_feature_name].mean()))
      return df.iloc[0:5][TARGET_COLUMN].mean()
  \<close>
\<close>

definition get_nearest_neighbors ::
  "prediction_config \<Rightarrow> dataframe \<Rightarrow> string \<Rightarrow> error + scalar \<times> event list" where
  "get_nearest_neighbors cfg df model_feature_name =
     (case get_column (iloc_slice 0 5 df) (TARGET_COLUMN cfg) of
        Inl e \<Rightarrow> Inl e
      | Inr ts \<Rightarrow>
         (case get_column (iloc_slice 0 5 df) model_feature_name of
            Inl e \<Rightarrow> Inl e
          | Inr fs \<Rightarrow>
             Inr (series_mean ts,
                  [Predicted_msg (series_mean ts) model_feature_name (series_mean fs)])))"

section \<open>Error metrics\<close>

definition column_name_predicted_target :: "prediction_config \<Rightarrow> string \<Rightarrow> string" where
  "column_name_predicted_target cfg model_feature_name =
     ''predicted_'' @ TARGET_COLUMN cfg @ ''_'' @ model_feature_name"

text \<open>The function applied to each row: a function of the actual and the predicted
  target of the row, both looked up by column name.\<close>

definition on_actual_predicted ::
  "(scalar \<Rightarrow> scalar \<Rightarrow> scalar) \<Rightarrow> prediction_config \<Rightarrow> dataframe \<Rightarrow> string \<Rightarrow> row
     \<Rightarrow> error + scalar" where
  "on_actual_predicted h cfg df model_feature_name x =
     (case row_get (columns df) x (TARGET_COLUMN cfg) of
        Inl e \<Rightarrow> Inl e
      | Inr actual \<Rightarrow>
         (case row_get (columns df) x (column_name_predicted_target cfg model_feature_name) of
            Inl e \<Rightarrow> Inl e
          | Inr predicted \<Rightarrow> Inr (h actual predicted)))"

text \<open>
  \<^verbatim>\<open>
  def calc_mean_absolute_error(self, df, model_feature_name):
      column_name_predicted_target = "predicted_" + TARGET_COLUMN + "_" + model_feature_name
      return df.apply(lambda x: np.absolute(x[TARGET_COLUMN]
                                            - x[column_name_predicted_target]), axis=1).mean()
  \<close>
  \<open>calc_mean_squared_error\<close> is the same with the square of the difference, and
  \<open>calc_root_mean_squared_error\<close> is \<open>np.sqrt\<close> of it.
\<close>

definition calc_mean_absolute_error ::
  "prediction_config \<Rightarrow> dataframe \<Rightarrow> string \<Rightarrow> error + outcome" where
  "calc_mean_absolute_error cfg df model_feature_name =
     (case df_apply
             (on_actual_predicted (\<lambda>a p. np_absolute (sub a p)) cfg df model_feature_name)
             df of
        Inl e \<Rightarrow> Inl e
      | Inr s \<Rightarrow> Inr (mean_applied s))"

definition calc_mean_squared_error ::
  "prediction_config \<Rightarrow> dataframe \<Rightarrow> string \<Rightarrow> error + outcome" where
  "calc_mean_squared_error cfg df model_feature_name =
     (case df_apply
             (on_actual_predicted (\<lambda>a p. square (sub a p)) cfg df model_feature_name)
             df of
        Inl e \<Rightarrow> Inl e
      | Inr s \<Rightarrow> Inr (mean_applied s))"

definition calc_root_mean_squared_error ::
  "prediction_config \<Rightarrow> dataframe \<Rightarrow> string \<Rightarrow> error + outcome" where
  "calc_root_mean_squared_error cfg df model_feature_name =
     (case calc_mean_squared_error cfg df model_feature_name of
        Inl e \<Rightarrow> Inl e
      | Inr mse \<Rightarrow> Inr (sqrt_outcome mse))"

section \<open>Reordering rows\<close>

text \<open>
  \<open>df.loc[labels]\<close>: for each label in turn, the rows that carry it; KeyError when a
  label is carried by no row. (Older versions of pandas raised only when none of the
  labels was found, and otherwise filled the rows of the labels not found with missing
  values; the inputs of the statements below have either all labels or none.)
\<close>

definition loc :: "dataframe \<Rightarrow> int list \<Rightarrow> error + dataframe" where
  "loc df labels =
     (if list_all (\<lambda>l. l \<in> set (map fst (rows df))) labels
      then Inr (df\<lparr>rows := concat (map (\<lambda>l. filter (\<lambda>lr. fst lr = l) (rows df)) labels)\<rparr>)
      else Inl KeyError)"

text \<open>
  NumPy's generator is global state. Its algorithm is not part of this program, so
  it enters as two parameters: \<open>seed n\<close> is the state that \<open>np.random.seed(n)\<close>
  installs, and \<open>permutation g n\<close> is the array that \<open>np.random.permutation(n)\<close>
  returns in state \<open>g\<close>, with the state it leaves. The function takes the state it
  is called in and returns the state it leaves.
  \<^verbatim>\<open>
  def randomise_dataframe_rows(self, df):
      np.random.seed(1)
      return df.loc[np.random.permutation(len(df))]
  \<close>
\<close>

definition randomise_dataframe_rows ::
  "(nat \<Rightarrow> 'g) \<Rightarrow> ('g \<Rightarrow> nat \<Rightarrow> nat list \<times> 'g) \<Rightarrow> 'g \<Rightarrow> dataframe
     \<Rightarrow> (error + dataframe) \<times> 'g" where
  "randomise_dataframe_rows seed permutation g df =
     (let g1 = seed 1;
          (p, g2) = permutation g1 (length (rows df))
      in (loc df (map int p), g2))"

text \<open>
  \<open>df.sort_values(feature)\<close> sorts by one column, ascending, missing values last,
  with NumPy's default sort (\<open>kind='quicksort'\<close>). That sort is not part of this
  program either: \<open>argsort ks\<close> stands for the positions NumPy returns for the keys
  \<open>ks\<close>. As pandas does, the keys that are not missing are sorted on their own and
  the positions of the missing ones are appended; a position out of range is an
  IndexError.
\<close>

definition nargsort :: "(real list \<Rightarrow> nat list) \<Rightarrow> scalar list \<Rightarrow> error + nat list" where
  "nargsort argsort items =
     (let idx = [0..<length items];
          non_nan_idx = filter (\<lambda>i. \<not> isnan (items ! i)) idx;
          nan_idx = filter (\<lambda>i. isnan (items ! i)) idx;
          non_nans = map num_of (filter (\<lambda>v. \<not> isnan v) items);
          sorted_idx = argsort non_nans
      in if list_all (\<lambda>j. j < length non_nan_idx) sorted_idx
         then Inr (map (\<lambda>j. non_nan_idx ! j) sorted_idx @ nan_idx)
         else Inl IndexError)"

definition sort_values ::
  "(real list \<Rightarrow> nat list) \<Rightarrow> dataframe \<Rightarrow> string \<Rightarrow> error + dataframe" where
  "sort_values argsort df by_col =
     (case get_column df by_col of
        Inl e \<Rightarrow> Inl e
      | Inr k \<Rightarrow>
         (case nargsort argsort k of
            Inl e \<Rightarrow> Inl e
          | Inr indexer \<Rightarrow> Inr (df\<lparr>rows := map (\<lambda>i. rows df ! i) indexer\<rparr>)))"

definition sort_dataframe_by_feature ::
  "(real list \<Rightarrow> nat list) \<Rightarrow> dataframe \<Rightarrow> string \<Rightarrow> error + dataframe" where
  "sort_dataframe_by_feature argsort df feature = sort_values argsort df feature"

section \<open>Helpers for stating the properties\<close>

text \<open>The values of a Series that are not missing: what \<open>mean\<close> averages and what
  the sort orders.\<close>

definition present :: "scalar list \<Rightarrow> real list" where
  "present s = map num_of (filter (\<lambda>v. \<not> isnan v) s)"

text \<open>
  Concrete inputs for the examples. \<open>example_seed\<close> and \<open>example_permutation\<close>
  are a toy generator that returns the reversed positions; \<open>example_argsort\<close> is a
  sort by insertion. They stand in for NumPy's only in the examples.
\<close>

definition example_seed :: "nat \<Rightarrow> nat" where
  "example_seed n = n"

definition example_permutation :: "nat \<Rightarrow> nat \<Rightarrow> nat list \<times> nat" where
  "example_permutation g n = (rev [0..<n], Suc g)"

definition example_argsort :: "real list \<Rightarrow> nat list" where
  "example_argsort ks = sort_key (\<lambda>i. ks ! i) [0..<length ks]"

definition price_config :: prediction_config where
  "price_config = \<lparr>TARGET_COLUMN = ''price'', MIN_FEATURES_COMBO_LEN = 1\<rparr>"

definition listings :: dataframe where
  "listings = \<lparr>columns = [''accommodates'', ''price''],
     rows = [(0, [Num 1, Num 0]), (1, [Num 2, Num 10])]\<rparr>"

definition predictions :: dataframe where
  "predictions = \<lparr>columns = [''price'', ''predicted_price_accommodates''],
     rows = [(0, [Num 10, Num 12]), (1, [Num 20, Num 17])]\<rparr>"

text \<open>A frame that has the columns the metrics read, and a third, and no row.\<close>

definition mpg_config :: prediction_config where
  "mpg_config = \<lparr>TARGET_COLUMN = ''mpg'', MIN_FEATURES_COMBO_LEN = 2\<rparr>"

definition no_cars :: dataframe where
  "no_cars = \<lparr>columns = [''weight'', ''mpg'', ''predicted_mpg_weight''], rows = []\<rparr>"

text \<open>Six listings: the sixth is beyond the five that the prediction reads.\<close>

definition six_listings :: dataframe where
  "six_listings = \<lparr>columns = [''accommodates'', ''price''],
     rows = [(0, [Num 1, Num 10]), (1, [Num 2, Num 20]), (2, [Num 3, Num 30]),
             (3, [Num 4, Num 40]), (4, [Num 5, Num 50]), (5, [Num 6, Num 600])]\<rparr>"

definition cars :: dataframe where
  "cars = \<lparr>columns = [''weight'', ''mpg''],
     rows = [(0, [Num 3, Num 30]), (1, [NaN, Num 10]), (2, [Num 1, Num 20])]\<rparr>"

text \<open>A frame whose rows kept the labels 5 and 6, as after rows were dropped.\<close>

definition filtered_cars :: dataframe where
  "filtered_cars = \<lparr>columns = [''weight'', ''mpg''],
     rows = [(5, [Num 3, Num 30]), (6, [Num 1, Num 20])]\<rparr>"

section \<open>Properties of the distance functions\<close>

lemma py_int_nonneg: "0 \<le> x \<Longrightarrow> py_int x = \<lfloor>x\<rfloor>"
  by (simp add: py_int_def)

lemma calc_euclidean_dist_Num:
  "calc_euclidean_dist (Num a) (Num b) = real_of_int \<lfloor>\<bar>a - b\<bar>\<rfloor>"
  by (simp add: calc_euclidean_dist_def py_int_nonneg)

lemma calc_euclidean_dist_missing:
  "isnan val1 \<or> isnan val2 \<Longrightarrow> calc_euclidean_dist val1 val2 = 32"
  by (simp add: calc_euclidean_dist_def)

lemma calc_euclidean_dist_using_scipy_Num:
  "calc_euclidean_dist_using_scipy (Num a) (Num b) = \<bar>a - b\<bar>"
  by (simp add: calc_euclidean_dist_using_scipy_def euclidean_def)

lemma calc_euclidean_dist_using_scipy_missing:
  "isnan val1 \<or> isnan val2 \<Longrightarrow> calc_euclidean_dist_using_scipy val1 val2 = 32"
  by (simp add: calc_euclidean_dist_using_scipy_def)

text \<open>
  When the difference of the two values is a whole number, the truncation changes
  nothing and \<open>calc_euclidean_dist\<close> is the absolute difference.
\<close>

lemma calc_euclidean_dist_integral:
  "a - b = real_of_int d \<Longrightarrow> calc_euclidean_dist (Num a) (Num b) = \<bar>a - b\<bar>"
proof -
  assume "a - b = real_of_int d"
  then have "\<bar>a - b\<bar> = real_of_int \<bar>d\<bar>" by simp
  then show ?thesis by (simp only: calc_euclidean_dist_Num floor_of_int)
qed

text \<open>
  Claim C1. For two values that are not missing, \<open>calc_euclidean_dist\<close> is said to
  return exactly their absolute difference. The function truncates the difference to
  an integer: for the values 1.5 and 0 it returns 1, not 1.5.
\<close>

theorem calc_euclidean_dist_truncates:
  "calc_euclidean_dist (Num (3/2)) (Num 0) = 1 \<and>
   calc_euclidean_dist (Num (3/2)) (Num 0) \<noteq> \<bar>3/2 - 0\<bar>"
proof -
  have "\<lfloor>3/2::real\<rfloor> = 1" by linarith
  then show ?thesis by (simp add: calc_euclidean_dist_Num)
qed

text \<open>
  Claim C3. With a missing value both distance functions return the constant 32.
  The constant is said to exceed every distance between two values that are not
  missing; the values 100 and 0 are at distance 100, above the constant.
\<close>

theorem sentinel_not_maximal:
  "calc_euclidean_dist NaN (Num 0) = 32 \<and>
   calc_euclidean_dist_using_scipy NaN (Num 0) = 32 \<and>
   calc_euclidean_dist (Num 100) (Num 0) = 100 \<and>
   calc_euclidean_dist_using_scipy (Num 100) (Num 0) = 100"
  by (simp add: calc_euclidean_dist_Num calc_euclidean_dist_using_scipy_Num
      calc_euclidean_dist_missing calc_euclidean_dist_using_scipy_missing)

text \<open>
  Claim C9. The two distance functions are said to agree on every pair of values.
  On 1.5 and 0 the first returns 1 and the SciPy variant returns 1.5.
\<close>

theorem distance_variants_differ:
  "calc_euclidean_dist (Num (3/2)) (Num 0) = 1 \<and>
   calc_euclidean_dist_using_scipy (Num (3/2)) (Num 0) = 3/2"
proof -
  have "\<lfloor>3/2::real\<rfloor> = 1" by linarith
  then show ?thesis
    by (simp add: calc_euclidean_dist_Num calc_euclidean_dist_using_scipy_Num)
qed

section \<open>Properties of the combination generator\<close>

text \<open>
  The model of \<open>itertools.combinations\<close> against the library's \<open>subseqs\<close>: the
  combinations of length \<open>r\<close> are the subsequences of that length, in the order
  \<open>subseqs\<close> lists them; each has \<open>r\<close> elements, and none is listed twice when the
  features are distinct.
\<close>

lemma filter_length_0_subseqs: "filter (\<lambda>ys. length ys = 0) (subseqs xs) = [[]]"
  by (induction xs) (simp_all add: Let_def filter_map comp_def)

lemma combinations_subseqs:
  "combinations xs r = filter (\<lambda>ys. length ys = r) (subseqs xs)"
proof (induction xs r rule: combinations.induct)
  case (1 xs)
  then show ?case by (simp only: combinations.simps filter_length_0_subseqs)
next
  case (2 r)
  then show ?case by simp
next
  case (3 x xs r)
  then show ?case by (simp add: Let_def filter_map comp_def)
qed

lemma combinations_length: "ys \<in> set (combinations xs r) \<Longrightarrow> length ys = r"
  by (simp add: combinations_subseqs)

lemma combinations_distinct: "distinct xs \<Longrightarrow> distinct (combinations xs r)"
proof -
  assume "distinct xs"
  then have "distinct (map set (subseqs xs))" by (rule distinct_set_subseqs)
  then have "distinct (subseqs xs)" by (simp add: distinct_map)
  then show ?thesis by (simp add: combinations_subseqs)
qed

lemma foldl_append_concat: "foldl (@) acc xss = acc @ concat xss"
  by (induction xss arbitrary: acc) auto

lemma flatten_combo_concat: "flatten_combo combos = concat combos"
  by (simp add: flatten_combo_def foldl_append_concat)

lemma combos_loop_unfold:
  "1 \<le> i \<Longrightarrow> combos_loop features i acc =
     acc @ map (\<lambda>k. combinations features k) [nat i..<Suc (length features)]"
proof (induction features i acc rule: combos_loop.induct)
  case (1 features i acc)
  show ?case
  proof (cases "i \<le> int (length features)")
    case True
    with "1.prems" have le: "nat i < Suc (length features)" by linarith
    have nx: "nat (i + 1) = Suc (nat i)" using "1.prems" by linarith
    have "combos_loop features i acc =
        combos_loop features (i + 1) (acc @ [combinations features (nat i)])"
      using True "1.prems" by (subst combos_loop.simps) simp
    also have "\<dots> = (acc @ [combinations features (nat i)]) @
        map (\<lambda>k. combinations features k) [nat (i + 1)..<Suc (length features)]"
      using "1.IH" True "1.prems" by simp
    also have "\<dots> = acc @ map (\<lambda>k. combinations features k) [nat i..<Suc (length features)]"
    proof -
      have "[nat i..<Suc (length features)] = nat i # [Suc (nat i)..<Suc (length features)]"
        using le by (rule upt_conv_Cons)
      then show ?thesis by (simp add: nx)
    qed
    finally show ?thesis .
  next
    case False
    then have "\<not> nat i < Suc (length features)" using "1.prems" by linarith
    then have "[nat i..<Suc (length features)] = []" by simp
    moreover have "combos_loop features i acc = acc"
      using False by (subst combos_loop.simps) simp
    ultimately show ?thesis by simp
  qed
qed

lemma combos_loop_below_one: "i < 1 \<Longrightarrow> combos_loop features i acc = acc"
  by (subst combos_loop.simps) simp

text \<open>
  For a minimum length from 1 to one below the number of features, the result is the
  combinations of each size from the minimum to the number of features, by size.
\<close>

lemma generate_combinations_in_range:
  assumes "1 \<le> MIN_FEATURES_COMBO_LEN cfg"
    and "MIN_FEATURES_COMBO_LEN cfg < int (length fs)"
  shows "generate_combinations_of_features cfg fs =
    (concat (map (\<lambda>k. combinations fs k)
       [nat (MIN_FEATURES_COMBO_LEN cfg)..<Suc (length fs)]), [])"
  using assms
  by (simp add: generate_combinations_of_features_def flatten_combo_concat combos_loop_unfold)

lemma generate_combinations_ABC:
  "generate_combinations_of_features \<lparr>TARGET_COLUMN = ''t'', MIN_FEATURES_COMBO_LEN = 2\<rparr>
     [''A'', ''B'', ''C''] =
   ([[''A'', ''B''], [''A'', ''C''], [''B'', ''C''], [''A'', ''B'', ''C'']], [])"
proof -
  have "[nat 2..<Suc (length [''A'', ''B'', ''C''])] = [2, 3]"
    by (simp add: upt_conv_Cons)
  moreover have "combinations [''A'', ''B'', ''C''] 2 = [[''A'', ''B''], [''A'', ''C''], [''B'', ''C'']]"
    by code_simp
  moreover have "combinations [''A'', ''B'', ''C''] 3 = [[''A'', ''B'', ''C'']]"
    by code_simp
  ultimately show ?thesis
    using generate_combinations_in_range
      [of "\<lparr>TARGET_COLUMN = ''t'', MIN_FEATURES_COMBO_LEN = 2\<rparr>" "[''A'', ''B'', ''C'']"]
    by simp
qed

text \<open>
  Claim C8. When the minimum length exceeds the number of training columns, the
  generator returns the empty list and prints its error line; it raises nothing.
\<close>

theorem generate_combinations_too_long:
  "int (length fs) < MIN_FEATURES_COMBO_LEN cfg \<Longrightarrow>
   generate_combinations_of_features cfg fs =
   ([], [Error_msg
     ''Error: Miniumum length of any features combos cannot exceed length of all features''])"
  by (simp add: generate_combinations_of_features_def)

theorem generate_combinations_too_long_witness:
  "int (length [''col1'', ''col2'']) < MIN_FEATURES_COMBO_LEN \<lparr>TARGET_COLUMN = ''t'', MIN_FEATURES_COMBO_LEN = 3\<rparr> \<and>
   generate_combinations_of_features \<lparr>TARGET_COLUMN = ''t'', MIN_FEATURES_COMBO_LEN = 3\<rparr>
     [''col1'', ''col2''] =
   ([], [Error_msg
     ''Error: Miniumum length of any features combos cannot exceed length of all features''])"
  using generate_combinations_too_long
    [of "[''col1'', ''col2'']" "\<lparr>TARGET_COLUMN = ''t'', MIN_FEATURES_COMBO_LEN = 3\<rparr>"]
  by simp

text \<open>
  Claim C2. For a minimum length between 1 and the number of features, the generator is
  said to return the combinations of every size from the minimum up. Below the number
  of features it does (\<open>generate_combinations_in_range\<close>). At a minimum length equal
  to the number of features, which the claim includes, the test \<open><\<close> fails and the
  generator prints the error line and returns the empty list, where the one
  combination of all features is expected.
\<close>

theorem generate_combinations_full_length:
  "generate_combinations_of_features \<lparr>TARGET_COLUMN = ''t'', MIN_FEATURES_COMBO_LEN = 3\<rparr>
     [''A'', ''B'', ''C''] =
   ([], [Error_msg
     ''Error: Miniumum length of any features combos cannot exceed length of all features'']) \<and>
   combinations [''A'', ''B'', ''C''] 3 = [[''A'', ''B'', ''C'']]"
proof -
  have "combinations [''A'', ''B'', ''C''] 3 = [[''A'', ''B'', ''C'']]"
    by code_simp
  then show ?thesis by (simp add: generate_combinations_of_features_def)
qed

section \<open>Properties of the error metrics\<close>

text \<open>
  On two rows with the prices 10 and 20 predicted as 12 and 17, the errors are 2 and
  3: their mean, the mean of their squares and its root. A frame with rows and
  without the column of predictions ends the call with the KeyError of the first row.
\<close>

lemma metrics_of_predictions:
  "calc_mean_absolute_error price_config predictions ''accommodates'' = Inr (Scalar (Num (5/2)))"
  "calc_mean_squared_error price_config predictions ''accommodates'' = Inr (Scalar (Num (13/2)))"
  "calc_root_mean_squared_error price_config predictions ''accommodates'' =
     Inr (Scalar (Num (sqrt (13/2))))"
  by (simp_all add: calc_mean_absolute_error_def calc_mean_squared_error_def
      calc_root_mean_squared_error_def df_apply_def on_actual_predicted_def row_get_def
      column_name_predicted_target_def price_config_def predictions_def series_mean_def)

lemma metrics_missing_column:
  "calc_mean_absolute_error price_config listings ''accommodates'' = Inl KeyError"
  by (simp add: calc_mean_absolute_error_def df_apply_def on_actual_predicted_def row_get_def
      column_name_predicted_target_def price_config_def listings_def)

text \<open>
  A frame without rows that lacks the columns the metrics read gives no number and
  no error either: the KeyError of the one call that pandas makes is dropped, and the
  mean is taken of the frame, column by column. Without any column it has no entry.
\<close>

lemma metrics_of_frame_without_columns:
  "calc_mean_absolute_error price_config \<lparr>columns = [], rows = []\<rparr> ''accommodates'' =
     Inr (Per_column [])"
  "calc_mean_squared_error price_config \<lparr>columns = [], rows = []\<rparr> ''accommodates'' =
     Inr (Per_column [])"
  "calc_root_mean_squared_error price_config \<lparr>columns = [], rows = []\<rparr> ''accommodates'' =
     Inr (Per_column [])"
  by (simp_all add: calc_mean_absolute_error_def calc_mean_squared_error_def
      calc_root_mean_squared_error_def df_apply_def on_actual_predicted_def row_get_def
      dataframe_mean_def)

lemma row_get_missing_row:
  "c \<in> set cols \<Longrightarrow> row_get cols (replicate (length cols) NaN) c = Inr NaN"
proof -
  assume "c \<in> set cols"
  then have "map_of (zip cols (replicate (length cols) NaN)) c = Some NaN"
    by (induction cols) auto
  then show ?thesis by (simp add: row_get_def)
qed

lemma on_actual_predicted_missing_row:
  assumes "TARGET_COLUMN cfg \<in> set (columns df)"
    and "column_name_predicted_target cfg f \<in> set (columns df)"
    and "h NaN NaN = NaN"
  shows "on_actual_predicted h cfg df f (replicate (length (columns df)) NaN) = Inr NaN"
  using assms by (simp add: on_actual_predicted_def row_get_missing_row)

text \<open>
  Claim C4, as the code has it. On a frame that has the column of the target and the
  column of the predictions and has no row, the three metrics raise nothing: the
  code has no test for emptiness, pandas has no row to apply the difference to, the
  mean it takes over no value is the missing-value marker, and so is the square root
  of that.
\<close>

theorem metrics_of_empty_frame:
  "rows df = [] \<Longrightarrow>
   TARGET_COLUMN cfg \<in> set (columns df) \<Longrightarrow>
   column_name_predicted_target cfg f \<in> set (columns df) \<Longrightarrow>
   calc_mean_absolute_error cfg df f = Inr (Scalar NaN) \<and>
   calc_mean_squared_error cfg df f = Inr (Scalar NaN) \<and>
   calc_root_mean_squared_error cfg df f = Inr (Scalar NaN)"
  by (simp add: calc_mean_absolute_error_def calc_mean_squared_error_def
      calc_root_mean_squared_error_def df_apply_def on_actual_predicted_missing_row
      series_mean_def)

text \<open>
  Claim C4, as stated: on an empty set of pairs each metric fails with an error. Here,
  on a frame with both columns and no row, each of the three returns a value, the
  missing-value marker.
\<close>

theorem metrics_of_empty_frame_return:
  "calc_mean_absolute_error \<lparr>TARGET_COLUMN = ''price'', MIN_FEATURES_COMBO_LEN = 1\<rparr>
     \<lparr>columns = [''price'', ''predicted_price_accommodates''], rows = []\<rparr> ''accommodates''
     = Inr (Scalar NaN) \<and>
   calc_mean_squared_error \<lparr>TARGET_COLUMN = ''price'', MIN_FEATURES_COMBO_LEN = 1\<rparr>
     \<lparr>columns = [''price'', ''predicted_price_accommodates''], rows = []\<rparr> ''accommodates''
     = Inr (Scalar NaN) \<and>
   calc_root_mean_squared_error \<lparr>TARGET_COLUMN = ''price'', MIN_FEATURES_COMBO_LEN = 1\<rparr>
     \<lparr>columns = [''price'', ''predicted_price_accommodates''], rows = []\<rparr> ''accommodates''
     = Inr (Scalar NaN)"
  by (simp add: calc_mean_absolute_error_def calc_mean_squared_error_def
      calc_root_mean_squared_error_def df_apply_def on_actual_predicted_def row_get_def
      column_name_predicted_target_def series_mean_def)

theorem metrics_of_empty_frame_witness:
  "rows no_cars = [] \<and>
   TARGET_COLUMN mpg_config \<in> set (columns no_cars) \<and>
   column_name_predicted_target mpg_config ''weight'' \<in> set (columns no_cars) \<and>
   calc_mean_absolute_error mpg_config no_cars ''weight'' = Inr (Scalar NaN) \<and>
   calc_mean_squared_error mpg_config no_cars ''weight'' = Inr (Scalar NaN) \<and>
   calc_root_mean_squared_error mpg_config no_cars ''weight'' = Inr (Scalar NaN)"
proof -
  have r: "rows no_cars = []" by (simp add: no_cars_def)
  have t: "TARGET_COLUMN mpg_config \<in> set (columns no_cars)"
    by (simp add: no_cars_def mpg_config_def)
  have p: "column_name_predicted_target mpg_config ''weight'' \<in> set (columns no_cars)"
    by (simp add: no_cars_def mpg_config_def column_name_predicted_target_def)
  show ?thesis
    using metrics_of_empty_frame [OF r t p] r t p by simp
qed

section \<open>Properties of the nearest-neighbour prediction\<close>

lemma apply_rows_take:
  "apply_rows f rs = Inr vs \<Longrightarrow> apply_rows f (take n rs) = Inr (take n vs)"
proof (induction rs arbitrary: vs n)
  case Nil
  then show ?case by simp
next
  case (Cons r rs)
  show ?case
  proof (cases n)
    case 0
    then show ?thesis by simp
  next
    case (Suc m)
    from Cons.prems obtain v ws where v: "f r = Inr v" and ws: "apply_rows f rs = Inr ws"
      and vs: "vs = v # ws"
      by (auto split: sum.splits)
    from Cons.IH [OF ws] have "apply_rows f (take m rs) = Inr (take m ws)" .
    with v vs Suc show ?thesis by simp
  qed
qed

lemma get_column_iloc_head:
  "get_column df c = Inr vs \<Longrightarrow> get_column (iloc_slice 0 n df) c = Inr (take n vs)"
proof -
  assume a: "get_column df c = Inr vs"
  then have c: "c \<in> set (columns df)"
    by (simp add: get_column_def split: if_splits)
  with a have "apply_rows (\<lambda>r. row_get (columns df) r c) (map snd (rows df)) = Inr vs"
    by (simp add: get_column_def)
  then have "apply_rows (\<lambda>r. row_get (columns df) r c) (take n (map snd (rows df))) =
      Inr (take n vs)"
    by (rule apply_rows_take)
  then show ?thesis
    using c by (simp add: get_column_def iloc_slice_def take_map)
qed

lemma sum_list_le_bound:
  fixes xs :: "real list"
  shows "list_all (\<lambda>x. x \<le> M) xs \<Longrightarrow> sum_list xs \<le> real (length xs) * M"
  by (induction xs) (auto simp: algebra_simps)

lemma sum_list_ge_bound:
  fixes xs :: "real list"
  shows "list_all (\<lambda>x. m \<le> x) xs \<Longrightarrow> real (length xs) * m \<le> sum_list xs"
  by (induction xs) (auto simp: algebra_simps)

lemma mean_between_Min_Max:
  fixes xs :: "real list"
  assumes "xs \<noteq> []"
  shows "Min (set xs) \<le> sum_list xs / real (length xs)"
    and "sum_list xs / real (length xs) \<le> Max (set xs)"
proof -
  have pos: "0 < real (length xs)" using assms by simp
  have "list_all (\<lambda>x. Min (set xs) \<le> x) xs" by (simp add: list_all_iff)
  then have "real (length xs) * Min (set xs) \<le> sum_list xs" by (rule sum_list_ge_bound)
  then show "Min (set xs) \<le> sum_list xs / real (length xs)"
    using pos by (simp add: pos_le_divide_eq mult.commute)
  have "list_all (\<lambda>x. x \<le> Max (set xs)) xs" by (simp add: list_all_iff)
  then have "sum_list xs \<le> real (length xs) * Max (set xs)" by (rule sum_list_le_bound)
  then show "sum_list xs / real (length xs) \<le> Max (set xs)"
    using pos by (simp add: pos_divide_le_eq mult.commute)
qed

lemma series_mean_present:
  "series_mean s = (if present s = [] then NaN else Num (sum_list (present s) / real (length (present s))))"
  by (simp add: series_mean_def present_def Let_def)

text \<open>
  Claim C5, as the code has it. The function has no parameter \<open>k\<close>: it always takes
  the first five rows, or all rows when there are fewer. When the frame has the
  target column and the feature column, it returns the mean of the target values of
  those rows that are not missing, and prints it with the mean of the feature.
  Unless all those target values are missing, that mean, taken in exact arithmetic,
  lies between the least and the greatest of them. The number pandas returns is the
  mean as float64 computes it: it can differ from the exact mean by rounding error
  and so leave the interval, as 0.10000000000000002 does for three targets 0.1.
\<close>

theorem get_nearest_neighbors_first_five:
  assumes "get_column df (TARGET_COLUMN cfg) = Inr ts"
    and "get_column df f = Inr fs"
  shows "get_nearest_neighbors cfg df f =
           Inr (series_mean (take 5 ts),
                [Predicted_msg (series_mean (take 5 ts)) f (series_mean (take 5 fs))]) \<and>
         (present (take 5 ts) = [] \<or>
          series_mean (take 5 ts) =
            Num (sum_list (present (take 5 ts)) / real (length (present (take 5 ts)))) \<and>
          Min (set (present (take 5 ts))) \<le> num_of (series_mean (take 5 ts)) \<and>
          num_of (series_mean (take 5 ts)) \<le> Max (set (present (take 5 ts))))"
proof -
  have "get_nearest_neighbors cfg df f =
           Inr (series_mean (take 5 ts),
                [Predicted_msg (series_mean (take 5 ts)) f (series_mean (take 5 fs))])"
    using assms by (simp add: get_nearest_neighbors_def get_column_iloc_head)
  moreover have "present (take 5 ts) = [] \<or>
          series_mean (take 5 ts) =
            Num (sum_list (present (take 5 ts)) / real (length (present (take 5 ts)))) \<and>
          Min (set (present (take 5 ts))) \<le> num_of (series_mean (take 5 ts)) \<and>
          num_of (series_mean (take 5 ts)) \<le> Max (set (present (take 5 ts)))"
  proof (cases "present (take 5 ts) = []")
    case True
    then show ?thesis by simp
  next
    case False
    then show ?thesis
      using mean_between_Min_Max [OF False] by (simp add: series_mean_present)
  qed
  ultimately show ?thesis by simp
qed

lemma listings_price: "get_column listings ''price'' = Inr [Num 0, Num 10]"
  by (simp add: get_column_def listings_def row_get_def)

lemma listings_accommodates: "get_column listings ''accommodates'' = Inr [Num 1, Num 2]"
  by (simp add: get_column_def listings_def row_get_def)

text \<open>
  Claim C5, as stated, with \<open>k = 1\<close>: on a frame of two rows with the targets 0 and
  10, the mean of the target of the first \<open>k\<close> rows is 0; the function returns 5,
  the mean over both rows.
\<close>

theorem get_nearest_neighbors_ignores_k:
  "(1::nat) \<le> length (rows listings) \<and>
   get_column listings (TARGET_COLUMN price_config) = Inr [Num 0, Num 10] \<and>
   series_mean (take 1 [Num 0, Num 10]) = Num 0 \<and>
   get_nearest_neighbors price_config listings ''accommodates'' =
     Inr (Num 5, [Predicted_msg (Num 5) ''accommodates'' (Num (3/2))])"
  by (simp add: get_nearest_neighbors_def get_column_iloc_head [OF listings_price]
      get_column_iloc_head [OF listings_accommodates] price_config_def series_mean_def
      listings_price) (simp add: listings_def)

lemma six_listings_price:
  "get_column six_listings ''price'' =
     Inr [Num 10, Num 20, Num 30, Num 40, Num 50, Num 600]"
  by (simp add: get_column_def six_listings_def row_get_def)

lemma six_listings_accommodates:
  "get_column six_listings ''accommodates'' =
     Inr [Num 1, Num 2, Num 3, Num 4, Num 5, Num 6]"
  by (simp add: get_column_def six_listings_def row_get_def)

text \<open>
  On six listings the prediction is 30, the mean of the first five prices, between
  the least and the greatest of the five; the sixth price, 600, is not read (the
  mean of all six is 125).
\<close>

theorem get_nearest_neighbors_first_five_witness:
  "get_column six_listings (TARGET_COLUMN price_config) =
     Inr [Num 10, Num 20, Num 30, Num 40, Num 50, Num 600] \<and>
   get_column six_listings ''accommodates'' =
     Inr [Num 1, Num 2, Num 3, Num 4, Num 5, Num 6] \<and>
   get_nearest_neighbors price_config six_listings ''accommodates'' =
     Inr (Num 30, [Predicted_msg (Num 30) ''accommodates'' (Num 3)]) \<and>
   present (take 5 [Num 10, Num 20, Num 30, Num 40, Num 50, Num 600]) = [10, 20, 30, 40, 50] \<and>
   Min (set [10, 20, 30, 40, 50 :: real]) \<le> 30 \<and> 30 \<le> Max (set [10, 20, 30, 40, 50 :: real]) \<and>
   series_mean [Num 10, Num 20, Num 30, Num 40, Num 50, Num 600] = Num 125"
proof -
  have t: "get_column six_listings (TARGET_COLUMN price_config) =
      Inr [Num 10, Num 20, Num 30, Num 40, Num 50, Num 600]"
    by (simp add: price_config_def six_listings_price)
  have m: "series_mean [Num 10, Num 20, Num 30, Num 40, Num 50] = Num 30"
    "series_mean [Num 1, Num 2, Num 3, Num 4, Num 5] = Num 3"
    "series_mean [Num 10, Num 20, Num 30, Num 40, Num 50, Num 600] = Num 125"
    by (simp_all add: series_mean_def)
  have p: "present [Num 10, Num 20, Num 30, Num 40, Num 50] = [10, 20, 30, 40, 50]"
    by (simp add: present_def)
  show ?thesis
    using get_nearest_neighbors_first_five [OF t six_listings_accommodates]
      t six_listings_accommodates
    by (simp add: m p)
qed

section \<open>Properties of the reordering of rows\<close>

text \<open>
  Claim C7. The shuffle does not depend on the state of the generator it is called
  in, since it seeds the generator first: two calls on the same frame give the same
  result (the same rows in the same order, or the same error) and leave the same
  state, whatever happened before each.
\<close>

theorem randomise_dataframe_rows_state_independent:
  "randomise_dataframe_rows seed permutation g df =
   randomise_dataframe_rows seed permutation g' df"
  by (simp add: randomise_dataframe_rows_def)

lemma sum_list_filter_labels:
  "distinct ls \<Longrightarrow>
   (\<Sum>l\<leftarrow>ls. mset (filter (\<lambda>lr. fst lr = l) rs)) = mset (filter (\<lambda>lr. fst lr \<in> set ls) rs)"
proof (induction ls)
  case Nil
  then show ?case by simp
next
  case (Cons l ls)
  then have notin: "l \<notin> set ls" and d: "distinct ls" by simp_all
  have "mset (filter (\<lambda>lr. fst lr = l) rs) + mset (filter (\<lambda>lr. fst lr \<in> set ls) rs) =
      mset (filter (\<lambda>lr. fst lr \<in> set (l # ls)) rs)"
    using notin by (induction rs) auto
  with Cons.IH [OF d] show ?case by simp
qed

lemma loc_permutation:
  assumes "mset labels = mset (map fst (rows df))"
    and "distinct (map fst (rows df))"
  shows "\<exists>df'. loc df labels = Inr df' \<and> columns df' = columns df \<and>
           mset (rows df') = mset (rows df)"
proof -
  have s: "set labels = set (map fst (rows df))"
    using assms(1) by (rule mset_eq_setD)
  have d: "distinct labels"
    using assms mset_eq_imp_distinct_iff by blast
  have "mset (concat (map (\<lambda>l. filter (\<lambda>lr. fst lr = l) (rows df)) labels)) =
        (\<Sum>l\<leftarrow>labels. mset (filter (\<lambda>lr. fst lr = l) (rows df)))"
    by (simp add: mset_concat comp_def)
  also have "\<dots> = mset (filter (\<lambda>lr. fst lr \<in> set labels) (rows df))"
    using d by (rule sum_list_filter_labels)
  also have "\<dots> = mset (rows df)"
  proof -
    have "filter (\<lambda>lr. fst lr \<in> set labels) (rows df) = rows df"
      unfolding s by (rule filter_True) simp
    then show ?thesis by simp
  qed
  finally have m: "mset (concat (map (\<lambda>l. filter (\<lambda>lr. fst lr = l) (rows df)) labels)) =
      mset (rows df)" .
  have "list_all (\<lambda>l. l \<in> set (map fst (rows df))) labels"
    using s by (simp add: list_all_iff)
  then show ?thesis using m by (simp add: loc_def)
qed

lemma randomise_permutation:
  assumes "mset (map fst (rows df)) = mset (map int [0..<length (rows df)])"
    and "mset (fst (permutation (seed 1) (length (rows df)))) = mset [0..<length (rows df)]"
  shows "\<exists>df'. fst (randomise_dataframe_rows seed permutation g df) = Inr df' \<and>
           columns df' = columns df \<and> mset (rows df') = mset (rows df)"
proof -
  obtain p g2 where pg: "permutation (seed 1) (length (rows df)) = (p, g2)"
    by (cases "permutation (seed 1) (length (rows df))")
  with assms(2) have "mset p = mset [0..<length (rows df)]" by simp
  then have "mset (map int p) = mset (map int [0..<length (rows df)])" by simp
  with assms(1) have l: "mset (map int p) = mset (map fst (rows df))" by simp
  have "distinct (map int [0..<length (rows df)])"
    by (simp add: distinct_map)
  with assms(1) have d: "distinct (map fst (rows df))"
    using mset_eq_imp_distinct_iff by blast
  from loc_permutation [OF l d] show ?thesis
    unfolding randomise_dataframe_rows_def Let_def pg by simp
qed

lemma apply_rows_length: "apply_rows f rs = Inr vs \<Longrightarrow> length vs = length rs"
  by (induction rs arbitrary: vs) (auto split: sum.splits)

lemma get_column_length: "get_column df c = Inr ks \<Longrightarrow> length ks = length (rows df)"
  by (auto simp: get_column_def split: if_splits dest: apply_rows_length)

lemma filter_positions:
  "map ((!) xs) (filter (\<lambda>i. P (xs ! i)) [0..<length xs]) = filter P xs"
proof (induction xs rule: rev_induct)
  case Nil
  then show ?case by simp
next
  case (snoc x xs)
  have f: "filter (\<lambda>i. P ((xs @ [x]) ! i)) [0..<length xs] =
           filter (\<lambda>i. P (xs ! i)) [0..<length xs]"
    by (rule filter_cong) (simp_all add: nth_append)
  have m: "map ((!) (xs @ [x])) (filter (\<lambda>i. P (xs ! i)) [0..<length xs]) =
           map ((!) xs) (filter (\<lambda>i. P (xs ! i)) [0..<length xs])"
    by (rule map_cong) (simp_all add: nth_append)
  show ?case using snoc by (simp add: f m)
qed

lemma length_filter_positions:
  "length (filter (\<lambda>i. P (xs ! i)) [0..<length xs]) = length (filter P xs)"
proof -
  have "length (map ((!) xs) (filter (\<lambda>i. P (xs ! i)) [0..<length xs])) = length (filter P xs)"
    by (simp only: filter_positions)
  then show ?thesis by simp
qed

lemma nargsort_permutation:
  assumes "mset (argsort (present ks)) = mset [0..<length (present ks)]"
  shows "\<exists>indexer. nargsort argsort ks = Inr indexer \<and> mset indexer = mset [0..<length ks]"
proof -
  let ?nn = "filter (\<lambda>i. \<not> isnan (ks ! i)) [0..<length ks]"
  let ?na = "filter (\<lambda>i. isnan (ks ! i)) [0..<length ks]"
  let ?s = "argsort (present ks)"
  have len: "length ?nn = length (present ks)"
    using length_filter_positions [of "\<lambda>v. \<not> isnan v" ks] by (simp add: present_def)
  have "set ?s = set [0..<length (present ks)]"
    using assms by (rule mset_eq_setD)
  then have ok: "list_all (\<lambda>j. j < length ?nn) ?s"
    by (simp add: list_all_iff len)
  have "mset (map (\<lambda>j. ?nn ! j) ?s) = image_mset (\<lambda>j. ?nn ! j) (mset [0..<length ?nn])"
    using assms by (simp add: len)
  also have "\<dots> = mset (map (\<lambda>j. ?nn ! j) [0..<length ?nn])" by simp
  also have "\<dots> = mset ?nn" by (simp only: map_nth)
  finally have "mset (map (\<lambda>j. ?nn ! j) ?s @ ?na) = mset ?nn + mset ?na" by simp
  also have "\<dots> = mset [0..<length ks]"
    using multiset_partition [of "mset [0..<length ks]" "\<lambda>i. isnan (ks ! i)"]
    by (simp add: add.commute)
  finally have m: "mset (map (\<lambda>j. ?nn ! j) ?s @ ?na) = mset [0..<length ks]" .
  have "nargsort argsort ks = Inr (map (\<lambda>j. ?nn ! j) ?s @ ?na)"
    using ok by (simp add: nargsort_def Let_def present_def)
  with m show ?thesis by simp
qed

lemma sort_permutation:
  assumes "get_column df feature = Inr ks"
    and "mset (argsort (present ks)) = mset [0..<length (present ks)]"
  shows "\<exists>df'. sort_dataframe_by_feature argsort df feature = Inr df' \<and>
           columns df' = columns df \<and> mset (rows df') = mset (rows df)"
proof -
  from nargsort_permutation [of argsort ks, OF assms(2)] obtain indexer
    where n: "nargsort argsort ks = Inr indexer" and m: "mset indexer = mset [0..<length ks]"
    by blast
  have len: "length ks = length (rows df)" using assms(1) by (rule get_column_length)
  have "mset (map (\<lambda>i. rows df ! i) indexer) =
        image_mset (\<lambda>i. rows df ! i) (mset [0..<length (rows df)])"
    using m by (simp add: len)
  also have "\<dots> = mset (map (\<lambda>i. rows df ! i) [0..<length (rows df)])" by simp
  also have "\<dots> = mset (rows df)" by (simp only: map_nth)
  finally have "mset (map (\<lambda>i. rows df ! i) indexer) = mset (rows df)" .
  then show ?thesis
    using assms(1) n by (simp add: sort_dataframe_by_feature_def sort_values_def)
qed

text \<open>
  Claim C10, as the code has it. The shuffle selects rows by label, with the
  positions \<open>0, ..., n - 1\<close> as labels: when the labels of the frame are these numbers,
  each once, and NumPy returns a permutation of them, the result has the rows of
  the input, each as often as the input. The same holds for the sort when the frame
  has the column and NumPy's sort returns a permutation of the positions of the keys
  that are not missing.
\<close>

theorem reordering_keeps_rows:
  "(mset (map fst (rows df)) = mset (map int [0..<length (rows df)]) \<and>
    mset (fst (permutation (seed 1) (length (rows df)))) = mset [0..<length (rows df)] \<longrightarrow>
    (\<exists>df'. fst (randomise_dataframe_rows seed permutation g df) = Inr df' \<and>
       columns df' = columns df \<and> mset (rows df') = mset (rows df))) \<and>
   (get_column df feature = Inr ks \<and>
    mset (argsort (present ks)) = mset [0..<length (present ks)] \<longrightarrow>
    (\<exists>df'. sort_dataframe_by_feature argsort df feature = Inr df' \<and>
       columns df' = columns df \<and> mset (rows df') = mset (rows df)))"
  using randomise_permutation [of df permutation seed g]
    sort_permutation [of df feature ks argsort]
  by blast

lemma upt_3: "[0..<3] = [0, 1, 2]"
  by (simp add: upt_rec)

lemma upt_2: "[0..<2] = [0, 1]"
  by (simp add: upt_rec)

lemma cars_weight: "get_column cars ''weight'' = Inr [Num 3, NaN, Num 1]"
  by (simp add: get_column_def cars_def row_get_def)

lemma present_cars_weight: "present [Num 3, NaN, Num 1] = [3, 1]"
  by (simp add: present_def)

lemma example_argsort_3_1: "example_argsort [3, 1] = [1, 0]"
  by (simp add: example_argsort_def upt_2)

lemma randomise_cars:
  "fst (randomise_dataframe_rows example_seed example_permutation 0 cars) =
     Inr \<lparr>columns = [''weight'', ''mpg''],
       rows = [(2, [Num 1, Num 20]), (1, [NaN, Num 10]), (0, [Num 3, Num 30])]\<rparr>"
  by (simp add: randomise_dataframe_rows_def example_seed_def example_permutation_def
      cars_def loc_def upt_3)

lemma sort_cars:
  "sort_dataframe_by_feature example_argsort cars ''weight'' =
     Inr \<lparr>columns = [''weight'', ''mpg''],
       rows = [(2, [Num 1, Num 20]), (0, [Num 3, Num 30]), (1, [NaN, Num 10])]\<rparr>"
  by (simp add: sort_dataframe_by_feature_def sort_values_def cars_weight nargsort_def
      example_argsort_3_1 upt_3 Let_def) (simp add: cars_def)

theorem reordering_keeps_rows_witness:
  "mset (map fst (rows cars)) = mset (map int [0..<length (rows cars)]) \<and>
   mset (fst (example_permutation (example_seed 1) (length (rows cars)))) =
     mset [0..<length (rows cars)] \<and>
   get_column cars ''weight'' = Inr [Num 3, NaN, Num 1] \<and>
   mset (example_argsort (present [Num 3, NaN, Num 1])) =
     mset [0..<length (present [Num 3, NaN, Num 1])] \<and>
   fst (randomise_dataframe_rows example_seed example_permutation 0 cars) =
     Inr \<lparr>columns = [''weight'', ''mpg''],
       rows = [(2, [Num 1, Num 20]), (1, [NaN, Num 10]), (0, [Num 3, Num 30])]\<rparr> \<and>
   sort_dataframe_by_feature example_argsort cars ''weight'' =
     Inr \<lparr>columns = [''weight'', ''mpg''],
       rows = [(2, [Num 1, Num 20]), (0, [Num 3, Num 30]), (1, [NaN, Num 10])]\<rparr>"
proof -
  have a: "mset (map fst (rows cars)) = mset (map int [0..<length (rows cars)])"
    by (simp add: cars_def upt_3)
  have b: "mset (fst (example_permutation (example_seed 1) (length (rows cars)))) =
     mset [0..<length (rows cars)]"
    by (simp add: example_permutation_def)
  have c: "mset (example_argsort (present [Num 3, NaN, Num 1])) =
     mset [0..<length (present [Num 3, NaN, Num 1])]"
    by (simp add: present_cars_weight example_argsort_3_1 upt_2)
  show ?thesis
    using reordering_keeps_rows [of cars example_permutation example_seed 0 "''weight''"
        "[Num 3, NaN, Num 1]" example_argsort]
      a b c cars_weight randomise_cars sort_cars
    by simp
qed

text \<open>
  Claim C10, as stated, for every dataframe: on a frame of two rows labelled 5 and 6,
  the shuffle looks up the labels 1 and 0, finds neither and ends with a KeyError;
  no frame is returned.
\<close>

theorem randomise_relabelled_frame:
  "fst (example_permutation (example_seed 1) (length (rows filtered_cars))) = [1, 0] \<and>
   fst (randomise_dataframe_rows example_seed example_permutation 0 filtered_cars) =
     Inl KeyError"
  by (simp add: randomise_dataframe_rows_def example_seed_def example_permutation_def
      filtered_cars_def loc_def upt_2)

text \<open>The same for any generator: whatever positions below 2 it returns, none is a
  label of that frame.\<close>

lemma randomise_relabelled_frame_any_permutation:
  assumes "fst (permutation (seed 1) 2) \<noteq> []"
    and "set (fst (permutation (seed 1) 2)) \<subseteq> {0, 1}"
  shows "fst (randomise_dataframe_rows seed permutation g filtered_cars) = Inl KeyError"
proof -
  obtain p g2 where pg: "permutation (seed 1) 2 = (p, g2)"
    by (cases "permutation (seed 1) 2")
  with assms have p: "p \<noteq> []" "set p \<subseteq> {0, 1}" by simp_all
  then obtain x where x: "x \<in> set p" "x = 0 \<or> x = 1" by (cases p) auto
  then have "int x \<in> set (map int p)" by simp
  moreover have "int x \<notin> set (map fst (rows filtered_cars))"
    using x(2) by (auto simp: filtered_cars_def)
  ultimately have "\<not> list_all (\<lambda>l. l \<in> set (map fst (rows filtered_cars))) (map int p)"
    unfolding list_all_iff by blast
  then have "loc filtered_cars (map int p) = Inl KeyError"
    by (simp add: loc_def)
  moreover have "length (rows filtered_cars) = 2" by (simp add: filtered_cars_def)
  ultimately show ?thesis
    unfolding randomise_dataframe_rows_def Let_def by (simp add: pg del: One_nat_def)
qed

lemma apply_rows_nth:
  "apply_rows f rs = Inr vs \<Longrightarrow> i < length rs \<Longrightarrow> f (rs ! i) = Inr (vs ! i)"
proof (induction rs arbitrary: vs i)
  case Nil
  then show ?case by simp
next
  case (Cons r rs)
  from Cons.prems(1) obtain v ws where v: "f r = Inr v" and ws: "apply_rows f rs = Inr ws"
    and vs: "vs = v # ws"
    by (auto split: sum.splits)
  show ?case
  proof (cases i)
    case 0
    with v vs show ?thesis by simp
  next
    case (Suc j)
    with Cons.prems(2) have "j < length rs" by simp
    from Cons.IH [OF ws this] Suc vs show ?thesis by simp
  qed
qed

lemma apply_rows_map_nth:
  assumes "apply_rows f rs = Inr vs" and "list_all (\<lambda>i. i < length rs) is"
  shows "apply_rows f (map (\<lambda>i. rs ! i) is) = Inr (map (\<lambda>i. vs ! i) is)"
  using assms(2)
proof (induction "is")
  case Nil
  then show ?case by simp
next
  case (Cons i "is")
  then have "i < length rs" and "list_all (\<lambda>i. i < length rs) is" by simp_all
  with Cons.IH apply_rows_nth [OF assms(1)] show ?case by simp
qed

lemma nargsort_value:
  assumes "mset (argsort (present ks)) = mset [0..<length (present ks)]"
  shows "nargsort argsort ks =
           Inr (map (\<lambda>j. filter (\<lambda>i. \<not> isnan (ks ! i)) [0..<length ks] ! j)
                  (argsort (present ks)) @
                filter (\<lambda>i. isnan (ks ! i)) [0..<length ks])"
proof -
  have len: "length (filter (\<lambda>i. \<not> isnan (ks ! i)) [0..<length ks]) = length (present ks)"
    using length_filter_positions [of "\<lambda>v. \<not> isnan v" ks] by (simp add: present_def)
  have "set (argsort (present ks)) = set [0..<length (present ks)]"
    using assms by (rule mset_eq_setD)
  then have "list_all (\<lambda>j. j < length (filter (\<lambda>i. \<not> isnan (ks ! i)) [0..<length ks]))
      (argsort (present ks))"
    by (simp add: list_all_iff len)
  then show ?thesis by (simp add: nargsort_def Let_def present_def)
qed

lemma get_column_reordered:
  assumes "get_column df c = Inr ks" and "list_all (\<lambda>i. i < length (rows df)) ix"
  shows "get_column (df\<lparr>rows := map (\<lambda>i. rows df ! i) ix\<rparr>) c = Inr (map (\<lambda>i. ks ! i) ix)"
proof -
  have c: "c \<in> set (columns df)"
    using assms(1) by (simp add: get_column_def split: if_splits)
  with assms(1)
  have ar: "apply_rows (\<lambda>r. row_get (columns df) r c) (map snd (rows df)) = Inr ks"
    by (simp add: get_column_def)
  have r: "list_all (\<lambda>i. i < length (map snd (rows df))) ix"
    using assms(2) by simp
  have e: "map snd (map (\<lambda>i. rows df ! i) ix) = map (\<lambda>i. map snd (rows df) ! i) ix"
    using assms(2) by (induction ix) simp_all
  have "get_column (df\<lparr>rows := map (\<lambda>i. rows df ! i) ix\<rparr>) c =
      apply_rows (\<lambda>r. row_get (columns df) r c) (map snd (map (\<lambda>i. rows df ! i) ix))"
    using c by (simp add: get_column_def del: map_map)
  also have "\<dots> =
      apply_rows (\<lambda>r. row_get (columns df) r c) (map (\<lambda>i. map snd (rows df) ! i) ix)"
    by (simp only: e)
  also have "\<dots> = Inr (map (\<lambda>i. ks ! i) ix)"
    by (rule apply_rows_map_nth [OF ar r])
  finally show ?thesis .
qed

lemma nth_present:
  "j < length (present ks) \<Longrightarrow>
   ks ! (filter (\<lambda>i. \<not> isnan (ks ! i)) [0..<length ks] ! j) = Num (present ks ! j)"
proof -
  assume j: "j < length (present ks)"
  let ?nn = "filter (\<lambda>i. \<not> isnan (ks ! i)) [0..<length ks]"
  have len: "length ?nn = length (present ks)"
    using length_filter_positions [of "\<lambda>v. \<not> isnan v" ks] by (simp add: present_def)
  have m: "map ((!) ks) ?nn = filter (\<lambda>v. \<not> isnan v) ks"
    by (rule filter_positions)
  have "ks ! (?nn ! j) = map ((!) ks) ?nn ! j"
    using j len by simp
  also have "\<dots> = filter (\<lambda>v. \<not> isnan v) ks ! j"
    by (simp only: m)
  finally have e: "ks ! (?nn ! j) = filter (\<lambda>v. \<not> isnan v) ks ! j" .
  have "j < length (filter (\<lambda>v. \<not> isnan v) ks)"
    using j by (simp add: present_def)
  then have "filter (\<lambda>v. \<not> isnan v) ks ! j \<in> set (filter (\<lambda>v. \<not> isnan v) ks)"
    by (rule nth_mem)
  then have "\<not> isnan (filter (\<lambda>v. \<not> isnan v) ks ! j)" by simp
  then have "filter (\<lambda>v. \<not> isnan v) ks ! j = Num (num_of (filter (\<lambda>v. \<not> isnan v) ks ! j))"
    by (cases "filter (\<lambda>v. \<not> isnan v) ks ! j") simp_all
  also have "\<dots> = Num (present ks ! j)"
    using j by (simp add: present_def)
  finally show ?thesis using e by simp
qed

text \<open>
  What the sort gives whatever algorithm NumPy uses, as long as it returns a
  permutation of the positions that puts the keys in ascending order: the feature
  column of the result is the keys that are not missing, ascending, then the missing
  ones. The order among rows of equal key is the order \<open>argsort\<close> returns them in,
  about which nothing is assumed here.
\<close>

lemma sort_dataframe_by_feature_ascending:
  assumes col: "get_column df feature = Inr ks"
    and perm: "mset (argsort (present ks)) = mset [0..<length (present ks)]"
    and asc: "sorted (map (\<lambda>j. present ks ! j) (argsort (present ks)))"
  shows "\<exists>df'. sort_dataframe_by_feature argsort df feature = Inr df' \<and>
           get_column df' feature =
             Inr (map Num (map (\<lambda>j. present ks ! j) (argsort (present ks))) @
                  replicate (length (filter isnan ks)) NaN) \<and>
           sorted (map (\<lambda>j. present ks ! j) (argsort (present ks))) \<and>
           mset (map (\<lambda>j. present ks ! j) (argsort (present ks))) = mset (present ks)"
proof -
  let ?nn = "filter (\<lambda>i. \<not> isnan (ks ! i)) [0..<length ks]"
  let ?na = "filter (\<lambda>i. isnan (ks ! i)) [0..<length ks]"
  let ?s = "argsort (present ks)"
  let ?ix = "map (\<lambda>j. ?nn ! j) ?s @ ?na"
  have lenk: "length ks = length (rows df)" using col by (rule get_column_length)
  have n: "nargsort argsort ks = Inr ?ix" using perm by (rule nargsort_value)
  from nargsort_permutation [of argsort ks, OF perm] n
  have "mset ?ix = mset [0..<length ks]" by simp
  then have "set ?ix = set [0..<length ks]" by (rule mset_eq_setD)
  then have range: "list_all (\<lambda>i. i < length (rows df)) ?ix"
    unfolding list_all_iff lenk by simp
  have srt: "sort_dataframe_by_feature argsort df feature =
      Inr (df\<lparr>rows := map (\<lambda>i. rows df ! i) ?ix\<rparr>)"
    using col n by (simp add: sort_dataframe_by_feature_def sort_values_def)
  have col': "get_column (df\<lparr>rows := map (\<lambda>i. rows df ! i) ?ix\<rparr>) feature =
      Inr (map (\<lambda>i. ks ! i) ?ix)"
    using col range by (rule get_column_reordered)
  have sset: "set ?s = set [0..<length (present ks)]"
    using perm by (rule mset_eq_setD)
  have first: "map (\<lambda>i. ks ! i) (map (\<lambda>j. ?nn ! j) ?s) = map Num (map (\<lambda>j. present ks ! j) ?s)"
    using sset by (simp add: nth_present)
  have "map (\<lambda>i. ks ! i) ?na = filter isnan (map (\<lambda>i. ks ! i) [0..<length ks])"
    by (simp add: filter_map comp_def)
  also have "\<dots> = filter isnan ks" by (simp only: map_nth)
  also have "\<dots> = replicate (length (filter isnan ks)) NaN"
  proof -
    have "\<forall>v\<in>set (filter isnan ks). v = NaN"
    proof
      fix v
      assume "v \<in> set (filter isnan ks)"
      then have "isnan v" by simp
      then show "v = NaN" by (cases v) simp_all
    qed
    then have "replicate (length (filter isnan ks)) NaN = filter isnan ks"
      by (rule replicate_length_same)
    then show ?thesis by (rule sym)
  qed
  finally have second: "map (\<lambda>i. ks ! i) ?na = replicate (length (filter isnan ks)) NaN" .
  have keys: "map (\<lambda>i. ks ! i) ?ix =
      map Num (map (\<lambda>j. present ks ! j) ?s) @ replicate (length (filter isnan ks)) NaN"
    using first second by simp
  have "mset (map (\<lambda>j. present ks ! j) ?s) =
      image_mset (\<lambda>j. present ks ! j) (mset [0..<length (present ks)])"
    using perm by simp
  also have "\<dots> = mset (map (\<lambda>j. present ks ! j) [0..<length (present ks)])" by simp
  also have "\<dots> = mset (present ks)" by (simp only: map_nth)
  finally have ms: "mset (map (\<lambda>j. present ks ! j) ?s) = mset (present ks)" .
  show ?thesis using srt col' keys asc ms by simp
qed

end
